theory Spec2Isabelle
  imports Main
begin

section \<open>Python strings\<close>

text \<open>
  Strings are ASCII character lists. \<open>str.lower\<close>, \<open>str.upper\<close> and \<open>str.strip\<close> are
  modelled on ASCII: the case mappings move the 26 letters and leave every other character alone,
  and the whitespace stripped is what \<open>str.isspace\<close> accepts below code point 128.
\<close>

definition is_space :: "char \<Rightarrow> bool" where
  "is_space c = (of_char c \<in> {9, 10, 11, 12, 13, 28, 29, 30, 31, 32 :: nat})"

definition ascii_uppercase :: string where
  "ascii_uppercase = ''ABCDEFGHIJKLMNOPQRSTUVWXYZ''"

definition ascii_lowercase :: string where
  "ascii_lowercase = ''abcdefghijklmnopqrstuvwxyz''"

definition lower_char :: "char \<Rightarrow> char" where
  "lower_char c = (case map_of (zip ascii_uppercase ascii_lowercase) c of Some d \<Rightarrow> d | None \<Rightarrow> c)"

definition upper_char :: "char \<Rightarrow> char" where
  "upper_char c = (case map_of (zip ascii_lowercase ascii_uppercase) c of Some d \<Rightarrow> d | None \<Rightarrow> c)"

definition lower :: "string \<Rightarrow> string" where
  "lower s = map lower_char s"

definition upper :: "string \<Rightarrow> string" where
  "upper s = map upper_char s"

definition strip :: "string \<Rightarrow> string" where
  "strip s = rev (dropWhile is_space (rev (dropWhile is_space s)))"

text \<open>Decimal rendering of integers, as an f-string prints them.\<close>

fun str_nat :: "nat \<Rightarrow> string" where
  "str_nat n = (if n < 10 then [''0123456789'' ! n]
                else str_nat (n div 10) @ [''0123456789'' ! (n mod 10)])"

declare str_nat.simps [simp del]

definition str_int :: "int \<Rightarrow> string" where
  "str_int i = (if i < 0 then ''-'' @ str_nat (nat (- i)) else str_nat (nat i))"

text \<open>An optional string inside an f-string: \<open>None\<close> prints as the word None.\<close>

definition str_opt :: "string option \<Rightarrow> string" where
  "str_opt v = (case v of None \<Rightarrow> ''None'' | Some s \<Rightarrow> s)"

definition quote :: string where
  "quote = [CHR 0x27]"

text \<open>\<open>repr\<close> of a list of plain strings (no quotes or escapes inside them).\<close>

fun comma_sep :: "string list \<Rightarrow> string" where
  "comma_sep [] = []"
| "comma_sep [s] = s"
| "comma_sep (s # t # ts) = s @ '', '' @ comma_sep (t # ts)"

definition repr_list :: "string list \<Rightarrow> string" where
  "repr_list xs = ''['' @ comma_sep (map (\<lambda>s. quote @ s @ quote) xs) @ '']''"

text \<open>\<open>posixpath.join\<close> of two components.\<close>

fun path_join :: "string \<Rightarrow> string \<Rightarrow> string" where
  "path_join a (c # b) =
     (if c = CHR ''/'' then c # b
      else if a = [] \<or> last a = CHR ''/'' then a @ c # b
      else a @ ''/'' @ c # b)"
| "path_join a [] = (if a = [] \<or> last a = CHR ''/'' then a else a @ ''/'')"

section \<open>Exceptions\<close>

text \<open>
  Every exception the pipeline raises, with its message. \<open>DataSourceError\<close> is the reader's
  failure on a path that holds no file; its message is kept as the path.
\<close>

datatype error =
    ValueError string
  | FileNotFoundError string
  | AttributeError string
  | DataSourceError string

fun str_error :: "error \<Rightarrow> string" where
  "str_error (ValueError m) = m"
| "str_error (FileNotFoundError m) = m"
| "str_error (AttributeError m) = m"
| "str_error (DataSourceError m) = m"

section \<open>Data model\<close>

text \<open>
  A geometry is its type tag (what \<open>gdf.geometry.type\<close> reads) and an opaque shape.
  A row carries its index label, its attribute values and its geometry; an attribute that has
  no entry in the row is null. Attribute values are text, as the name fields of the datasets are.
  A frame lists its attribute columns (the geometry column is held apart) and its rows in order.
\<close>

datatype geometry = Geometry (geom_type: string) (geom_shape: nat)

datatype row = Row (row_index: nat) (attrs: "(string \<times> string) list") (geometry: geometry)

datatype gdf = GeoDataFrame (columns: "string list") (rows: "row list")

definition cell :: "row \<Rightarrow> string \<Rightarrow> string option" where
  "cell r col = map_of (attrs r) col"

text \<open>
  A GeoJSON dictionary with the keys the pipeline reads or writes; a key that is absent is
  \<open>None\<close>. The \<open>bbox\<close> key (floating-point bounds) is left out.
\<close>

datatype geojson =
  GeoJson (gj_id: "string option") (gj_type: "string option")
          (gj_features: "geojson list option")
          (gj_properties: "(string \<times> string option) list option")
          (gj_geometry: "geometry option")

record GeoQueryItem =
  area_name :: "string option"
  admin_level :: int
  is_group_query :: bool
  group_name :: "string option"
  parent_country :: "string option"

text \<open>
  What the functions read from outside: the parsed content of \<open>groups.json\<close>, the country
  database behind \<open>pycountry.countries.lookup\<close> (name to alpha-3 code, \<open>None\<close> where the
  lookup raises \<open>LookupError\<close>), and the geographic files by path.
\<close>

record world =
  groups :: "string \<rightharpoonup> string list"
  country_lookup :: "string \<rightharpoonup> string"
  files :: "string \<rightharpoonup> gdf"

section \<open>Group and country resolution\<close>

definition group_aliases :: "(string \<times> string) list" where
  "group_aliases =
    [(''eu'', ''European Union''),
     (''european union'', ''European Union''),
     (''gcc'', ''GCC''),
     (''gulf cooperation council'', ''GCC''),
     (''saarc'', ''South Asia''),
     (''south asia'', ''South Asia''),
     (''na'', ''North America''),
     (''north america'', ''North America''),
     (''sa'', ''South America''),
     (''south america'', ''South America''),
     (''asia'', ''Asia''),
     (''africa'', ''Africa''),
     (''oceania'', ''Oceania''),
     (''world'', ''World'')]"

text \<open>\<open>d.get(k, default)\<close> on a dictionary.\<close>

definition dict_get :: "('k \<rightharpoonup> 'v) \<Rightarrow> 'k \<Rightarrow> 'v \<Rightarrow> 'v" where
  "dict_get d k dflt = (case d k of Some v \<Rightarrow> v | None \<Rightarrow> dflt)"

text \<open>
  \<open>resolve_group\<close>: the first statement calls \<open>group_name.strip()\<close>, which raises
  \<open>AttributeError\<close> on \<open>None\<close>.
\<close>

definition resolve_group :: "(string \<rightharpoonup> string list) \<Rightarrow> string option \<Rightarrow> error + string list" where
  "resolve_group grps gname =
     (case gname of
        None \<Rightarrow> Inl (AttributeError (quote @ ''NoneType'' @ quote @ '' object has no attribute ''
                                     @ quote @ ''strip'' @ quote))
      | Some name \<Rightarrow>
          let group_name_clean = lower (strip name);
              canonical_name = dict_get (map_of group_aliases) group_name_clean name
          in Inr (dict_get grps canonical_name []))"

text \<open>
  \<open>country_to_iso3\<close>: a failed lookup (also of a value that is not a string) becomes a
  \<open>ValueError\<close> that quotes the input.
\<close>

definition country_to_iso3 :: "(string \<rightharpoonup> string) \<Rightarrow> string option \<Rightarrow> error + string" where
  "country_to_iso3 lookup name =
     (case (case name of None \<Rightarrow> None | Some n \<Rightarrow> lookup n) of
        Some alpha_3 \<Rightarrow> Inr alpha_3
      | None \<Rightarrow> Inl (ValueError (''Could not resolve country name: '' @ str_opt name)))"

section \<open>Loading boundary data\<close>

definition country_columns :: "string list" where
  "country_columns = [''name'', ''country'', ''admin'', ''NAME'', ''CNTRY_NAME'']"

fun find_country_col :: "gdf \<Rightarrow> string list \<Rightarrow> string option" where
  "find_country_col g [] = None"
| "find_country_col g (col # cols) =
     (if col \<in> set (columns g) then Some col else find_country_col g cols)"

text \<open>
  \<open>load_from_geojson\<close>. The country list may hold \<open>None\<close> (a country-level query passes
  its \<open>area_name\<close> as it is); \<open>isin\<close> compares each cell with the members of the list.
\<close>

definition load_from_geojson :: "(string \<rightharpoonup> gdf) \<Rightarrow> string \<Rightarrow> string option list \<Rightarrow> error + gdf" where
  "load_from_geojson fs file_path countries =
     (case fs file_path of
        None \<Rightarrow> Inl (DataSourceError file_path)
      | Some read \<Rightarrow>
          let g = GeoDataFrame (columns read)
                    (filter (\<lambda>r. geom_type (geometry r) \<in> set [''Polygon'', ''MultiPolygon''])
                            (rows read))
          in (case find_country_col g country_columns of
                None \<Rightarrow> Inl (ValueError ''No country name column found in GeoDataFrame!'')
              | Some country_col \<Rightarrow>
                  Inr (GeoDataFrame (columns g)
                         (filter (\<lambda>r. cell r country_col \<in> set countries) (rows g)))))"

definition shp_path :: "string \<Rightarrow> string \<Rightarrow> int \<Rightarrow> string" where
  "shp_path base_path country_iso3 level =
     path_join (path_join base_path country_iso3)
               (lower country_iso3 @ ''_'' @ str_int level @ ''.shp'')"

text \<open>The fallback search \<open>for level in range(admin_level, -1, -1)\<close>.\<close>

function find_shapefile :: "(string \<rightharpoonup> gdf) \<Rightarrow> string \<Rightarrow> string \<Rightarrow> int \<Rightarrow> (int \<times> gdf) option" where
  "find_shapefile fs base_path country_iso3 level =
     (if level < 0 then None
      else (case fs (shp_path base_path country_iso3 level) of
              Some g \<Rightarrow> Some (level, g)
            | None \<Rightarrow> find_shapefile fs base_path country_iso3 (level - 1)))"
  by pat_completeness auto
termination
  by (relation "measure (\<lambda>(fs, base_path, country_iso3, level). nat (level + 1))") auto

declare find_shapefile.simps [simp del]

definition name_columns :: "string list" where
  "name_columns = [''COUNTRY'', ''NAME_0'', ''NAME_1'', ''NAME_2'', ''NAME_3'', ''NAME_4'', ''NAME_5'']"

text \<open>The rows of a frame whose value in \<open>col\<close>, lowercased, equals the lowercased area name.\<close>

definition matching_rows :: "gdf \<Rightarrow> string \<Rightarrow> string \<Rightarrow> row list" where
  "matching_rows g col area_name_lower =
     filter (\<lambda>r. map_option lower (cell r col) = Some area_name_lower) (rows g)"

fun filter_by_name :: "gdf \<Rightarrow> string \<Rightarrow> string list \<Rightarrow> gdf option" where
  "filter_by_name g area_name_lower [] = None"
| "filter_by_name g area_name_lower (col # cols) =
     (if col \<in> set (columns g) then
        (let filtered = matching_rows g col area_name_lower
         in if filtered \<noteq> [] then Some (GeoDataFrame (columns g) filtered)
            else filter_by_name g area_name_lower cols)
      else filter_by_name g area_name_lower cols)"

text \<open>The part of \<open>load_from_shapefile\<close> after the search: \<open>if area_name: ... else: return gdf\<close>.\<close>

definition select_area :: "gdf \<Rightarrow> string option \<Rightarrow> int \<Rightarrow> error + gdf" where
  "select_area g area found_level =
     (case area of
        None \<Rightarrow> Inr g
      | Some a \<Rightarrow>
          if a = [] then Inr g
          else (case filter_by_name g (lower a) name_columns of
                  Some filtered \<Rightarrow> Inr filtered
                | None \<Rightarrow> Inl (ValueError (''No data found for '' @ quote @ a @ quote
                                            @ '' in any of '' @ repr_list name_columns
                                            @ '' at admin level '' @ str_int found_level))))"

definition load_from_shapefile ::
    "(string \<rightharpoonup> gdf) \<Rightarrow> string \<Rightarrow> int \<Rightarrow> string option \<Rightarrow> string \<Rightarrow> error + gdf" where
  "load_from_shapefile fs country_iso3 level area base_path =
     (let iso3 = upper country_iso3
      in (case find_shapefile fs base_path iso3 level of
            None \<Rightarrow> Inl (FileNotFoundError (''No shapefile found for '' @ iso3 @ '' from admin level ''
                                             @ str_int level @ '' down to 0.''))
          | Some (found_level, g) \<Rightarrow> select_area g area found_level))"

definition level1_path :: string where
  "level1_path = ''./geodata/level1.json''"

definition countries_path :: string where
  "countries_path = ''./geodata/countries''"

definition general_admin_levels :: "int list" where
  "general_admin_levels = [4, 6, 8, 9]"

text \<open>Python's \<open>a or b\<close> on optional strings: \<open>None\<close> and the empty string are falsy.\<close>

definition py_or :: "string option \<Rightarrow> string option \<Rightarrow> string option" where
  "py_or a b = (case a of None \<Rightarrow> b | Some s \<Rightarrow> if s \<noteq> [] then a else b)"

text \<open>The condition under which \<open>get_data\<close> asks for all subdivisions of the country.\<close>

definition all_subdivisions :: "GeoQueryItem \<Rightarrow> bool" where
  "all_subdivisions q =
     (admin_level q \<in> set general_admin_levels \<and>
      (case area_name q of
         None \<Rightarrow> True
       | Some a \<Rightarrow> (case parent_country q of
                      None \<Rightarrow> False
                    | Some p \<Rightarrow> p \<noteq> [] \<and> lower a = lower p)))"

definition get_data :: "world \<Rightarrow> GeoQueryItem \<Rightarrow> error + gdf" where
  "get_data w q =
     (if is_group_query q then
        (case resolve_group (groups w) (group_name q) of
           Inl e \<Rightarrow> Inl e
         | Inr countries \<Rightarrow> load_from_geojson (files w) level1_path (map Some countries))
      else if admin_level q = 2 then
        load_from_geojson (files w) level1_path [area_name q]
      else
        (case country_to_iso3 (country_lookup w) (py_or (parent_country q) (area_name q)) of
           Inl e \<Rightarrow> Inl (ValueError (''Failed to resolve country for shapefile lookup: '' @ str_error e))
         | Inr iso3 \<Rightarrow>
             if all_subdivisions q
             then load_from_shapefile (files w) iso3 (admin_level q) None countries_path
             else load_from_shapefile (files w) iso3 (admin_level q) (area_name q) countries_path))"

section \<open>Name field, extraction and aggregation\<close>

definition admin_name_map :: "(int \<times> string list) list" where
  "admin_name_map =
    [(9, [''NAME_4'', ''NAME_3'', ''name'']),
     (8, [''NAME_4'', ''NAME_3'', ''name'']),
     (7, [''NAME_3'', ''NAME_2'', ''NAME_1'', ''name'']),
     (6, [''NAME_2'', ''NAME_1'', ''name'']),
     (4, [''NAME_1'', ''COUNTRY'', ''name'']),
     (2, [''COUNTRY'', ''NAME'', ''name''])]"

definition default_candidates :: "string list" where
  "default_candidates =
    [''NAME_4'', ''NAME_3'', ''NAME_2'', ''NAME_1'', ''COUNTRY'', ''NAME'', ''name'', ''admin'', ''label'']"

definition candidates :: "int \<Rightarrow> string list" where
  "candidates level = dict_get (map_of admin_name_map) level default_candidates"

text \<open>\<open>gdf[col].dropna().astype(str).str.strip().any()\<close>: some value that is not null is,
  once stripped, a non-empty string.\<close>

definition any_name :: "gdf \<Rightarrow> string \<Rightarrow> bool" where
  "any_name g col = list_ex (\<lambda>v. strip v \<noteq> []) (List.map_filter (\<lambda>r. cell r col) (rows g))"

fun first_usable :: "gdf \<Rightarrow> string list \<Rightarrow> string option" where
  "first_usable g [] = None"
| "first_usable g (col # cols) =
     (if col \<in> set (columns g) \<and> any_name g col then Some col else first_usable g cols)"

definition select_name_field :: "gdf \<Rightarrow> int \<Rightarrow> error + string" where
  "select_name_field g level =
     (case first_usable g (candidates level) of
        Some col \<Rightarrow> Inr col
      | None \<Rightarrow> Inl (ValueError (''No suitable name field found for admin_level='' @ str_int level)))"

definition extract_geometry_with_name :: "gdf \<Rightarrow> string \<Rightarrow> error + gdf" where
  "extract_geometry_with_name g name_column =
     (if name_column \<notin> set (columns g)
      then Inl (ValueError (''Column '' @ quote @ name_column @ quote @ '' not found in DataFrame''))
      else Inr (GeoDataFrame [''name'']
                  (map (\<lambda>r. Row (row_index r)
                                 (case cell r name_column of None \<Rightarrow> [] | Some v \<Rightarrow> [(''name'', v)])
                                 (geometry r))
                       (rows g))))"

text \<open>\<open>__geo_interface__\<close> of a frame: one feature per row, in row order.\<close>

definition feature_of_row :: "string list \<Rightarrow> row \<Rightarrow> geojson" where
  "feature_of_row cols r =
     GeoJson (Some (str_nat (row_index r))) (Some ''Feature'') None
             (Some (map (\<lambda>c. (c, cell r c)) cols)) (Some (geometry r))"

definition geo_interface :: "gdf \<Rightarrow> geojson" where
  "geo_interface g =
     GeoJson None (Some ''FeatureCollection'') (Some (map (feature_of_row (columns g)) (rows g)))
             None None"

fun combine_loop :: "geojson list \<Rightarrow> geojson list \<Rightarrow> error + geojson list" where
  "combine_loop [] all_features = Inr all_features"
| "combine_loop (gj # rest) all_features =
     (if gj_type gj = Some ''FeatureCollection''
      then combine_loop rest (all_features @ (case gj_features gj of None \<Rightarrow> [] | Some fs \<Rightarrow> fs))
      else if gj_type gj = Some ''Feature''
      then combine_loop rest (all_features @ [gj])
      else Inl (ValueError (''Unsupported GeoJSON type: '' @ str_opt (gj_type gj))))"

definition feature_collection :: "geojson list \<Rightarrow> geojson" where
  "feature_collection fs = GeoJson None (Some ''FeatureCollection'') (Some fs) None None"

definition combine_geojsons :: "geojson list \<Rightarrow> error + geojson" where
  "combine_geojsons geojson_list =
     (case combine_loop geojson_list [] of
        Inl e \<Rightarrow> Inl e
      | Inr all_features \<Rightarrow> Inr (feature_collection all_features))"

section \<open>The query loop\<close>

text \<open>The body of the inner \<open>try\<close>: any exception of the chain is the item's failure.\<close>

definition process_item :: "world \<Rightarrow> GeoQueryItem \<Rightarrow> error + geojson" where
  "process_item w q =
     (case get_data w q of
        Inl e \<Rightarrow> Inl e
      | Inr g \<Rightarrow>
          (case select_name_field g (admin_level q) of
             Inl e \<Rightarrow> Inl e
           | Inr field_name \<Rightarrow>
               (case extract_geometry_with_name g field_name of
                  Inl e \<Rightarrow> Inl e
                | Inr new_gdf \<Rightarrow> Inr (geo_interface new_gdf))))"

text \<open>The loop over the parsed queries, with the list it appends to and the warnings it shows.\<close>

fun query_loop :: "world \<Rightarrow> GeoQueryItem list \<Rightarrow> geojson list \<times> string list
                    \<Rightarrow> geojson list \<times> string list" where
  "query_loop w [] st = st"
| "query_loop w (q # qs) (geoJson_List, warnings) =
     (case process_item w q of
        Inr geojson_dict \<Rightarrow> query_loop w qs (geoJson_List @ [geojson_dict], warnings)
      | Inl e \<Rightarrow> query_loop w qs
                 (geoJson_List,
                  warnings @ [''Failed to process '' @ str_opt (area_name q) @ '': '' @ str_error e]))"

definition run_query :: "world \<Rightarrow> GeoQueryItem list \<Rightarrow> (error + geojson) \<times> string list" where
  "run_query w queries =
     (case query_loop w queries ([], []) of
        (geoJson_List, warnings) \<Rightarrow> (combine_geojsons geoJson_List, warnings))"

section \<open>Example data\<close>

text \<open>
  A small world: a global country file, one French file at level 1, one Emirati file at level 6,
  one group, two countries in the country database; and some queries.
\<close>

definition ex_level1 :: gdf where
  "ex_level1 = GeoDataFrame [''name'']
     [Row 0 [(''name'', ''France'')] (Geometry ''MultiPolygon'' 10),
      Row 1 [(''name'', ''Qatar'')] (Geometry ''Polygon'' 11),
      Row 2 [(''name'', ''Oman'')] (Geometry ''Point'' 12)]"

definition ex_fra_1 :: gdf where
  "ex_fra_1 = GeoDataFrame [''COUNTRY'', ''NAME_1'']
     [Row 0 [(''COUNTRY'', ''France''), (''NAME_1'', ''Bretagne'')] (Geometry ''MultiPolygon'' 20),
      Row 1 [(''COUNTRY'', ''France''), (''NAME_1'', ''Normandie'')] (Geometry ''Polygon'' 21)]"

definition ex_are_6 :: gdf where
  "ex_are_6 = GeoDataFrame [''COUNTRY'', ''NAME_1'', ''NAME_2'']
     [Row 0 [(''COUNTRY'', ''United Arab Emirates''), (''NAME_1'', ''Dubai''), (''NAME_2'', ''Deira'')]
          (Geometry ''Polygon'' 30),
      Row 1 [(''COUNTRY'', ''United Arab Emirates''), (''NAME_1'', ''Abu Dhabi''), (''NAME_2'', ''Al Ain'')]
          (Geometry ''Polygon'' 31),
      Row 2 [(''COUNTRY'', ''United Arab Emirates''), (''NAME_1'', ''Dubai''), (''NAME_2'', ''Hatta'')]
          (Geometry ''MultiPolygon'' 32)]"

definition ex_world :: world where
  "ex_world =
     \<lparr>groups = map_of [(''GCC'', [''Qatar'', ''Oman''])],
      country_lookup = map_of [(''France'', ''FRA''), (''Brazil'', ''BRA''),
                               (''United Arab Emirates'', ''ARE'')],
      files = map_of [(''./geodata/level1.json'', ex_level1),
                      (''./geodata/countries/FRA/fra_1.shp'', ex_fra_1),
                      (''./geodata/countries/ARE/are_6.shp'', ex_are_6)]\<rparr>"

definition ex_dubai :: GeoQueryItem where
  "ex_dubai = \<lparr>area_name = Some ''Dubai'', admin_level = 9, is_group_query = False,
                group_name = None, parent_country = Some ''United Arab Emirates''\<rparr>"

definition ex_dubai_6 :: GeoQueryItem where
  "ex_dubai_6 = \<lparr>area_name = Some ''DUBAI'', admin_level = 6, is_group_query = False,
                  group_name = None, parent_country = Some ''United Arab Emirates''\<rparr>"

definition ex_emirates :: GeoQueryItem where
  "ex_emirates = \<lparr>area_name = Some ''united arab emirates'', admin_level = 9,
                   is_group_query = False, group_name = None,
                   parent_country = Some ''United Arab Emirates''\<rparr>"

definition ex_unnamed :: GeoQueryItem where
  "ex_unnamed = \<lparr>area_name = Some [], admin_level = 5, is_group_query = False,
                  group_name = None, parent_country = Some ''France''\<rparr>"

definition ex_wakanda :: GeoQueryItem where
  "ex_wakanda = \<lparr>area_name = Some ''Wakanda'', admin_level = 4, is_group_query = False,
                  group_name = None, parent_country = None\<rparr>"

definition ex_gcc :: GeoQueryItem where
  "ex_gcc = \<lparr>area_name = Some ''GCC'', admin_level = 2, is_group_query = True,
              group_name = Some ''gcc'', parent_country = None\<rparr>"

definition ex_atlantis :: GeoQueryItem where
  "ex_atlantis = \<lparr>area_name = Some ''Atlantis'', admin_level = 2, is_group_query = True,
                   group_name = Some ''Atlantis'', parent_country = None\<rparr>"

definition ex_no_group :: GeoQueryItem where
  "ex_no_group = \<lparr>area_name = Some ''GCC'', admin_level = 2, is_group_query = True,
                   group_name = None, parent_country = None\<rparr>"

definition ex_feature :: "nat \<Rightarrow> geojson" where
  "ex_feature n = GeoJson (Some (str_nat n)) (Some ''Feature'') None
                    (Some [(''name'', Some ''Dubai'')]) (Some (Geometry ''Polygon'' n))"

section \<open>Auxiliary facts\<close>

lemma alias_table_normal:
  "list_all (\<lambda>(k, c). lower (strip k) = k \<and> map_of group_aliases (lower (strip c)) = Some c)
            group_aliases"
  by code_simp

lemma alias_key_clean:
  "(k, c) \<in> set group_aliases \<Longrightarrow> lower (strip k) = k"
  using alias_table_normal unfolding list_all_iff by blast

lemma alias_canonical_key:
  "(k, c) \<in> set group_aliases \<Longrightarrow> map_of group_aliases (lower (strip c)) = Some c"
  using alias_table_normal unfolding list_all_iff by blast

lemma strip_empty_iff: "strip v = [] \<longleftrightarrow> (\<forall>ch \<in> set v. is_space ch)"
proof -
  have "(\<forall>x \<in> set (dropWhile is_space v). is_space x) \<longleftrightarrow> (\<forall>x \<in> set v. is_space x)"
  proof
    assume a: "\<forall>x \<in> set (dropWhile is_space v). is_space x"
    have "dropWhile is_space v = []"
    proof (rule ccontr)
      assume "dropWhile is_space v \<noteq> []"
      then have "\<not> is_space (hd (dropWhile is_space v))" by (rule hd_dropWhile)
      moreover have "hd (dropWhile is_space v) \<in> set (dropWhile is_space v)"
        using \<open>dropWhile is_space v \<noteq> []\<close> by simp
      ultimately show False using a by blast
    qed
    then show "\<forall>x \<in> set v. is_space x" by simp
  next
    assume "\<forall>x \<in> set v. is_space x"
    then show "\<forall>x \<in> set (dropWhile is_space v). is_space x"
      using set_dropWhileD by fastforce
  qed
  then show ?thesis by (simp add: strip_def)
qed

lemma any_name_iff:
  "any_name g col \<longleftrightarrow> (\<exists>r \<in> set (rows g). \<exists>v. cell r col = Some v \<and> (\<exists>ch \<in> set v. \<not> is_space ch))"
    unfolding any_name_def list_ex_iff List.map_filter_def strip_empty_iff
  by (simp, force)

lemma first_usable_find:
  "first_usable g cols = find (\<lambda>c. c \<in> set (columns g) \<and> any_name g c) cols"
  by (induction cols) auto

lemma candidates_default:
  "level \<notin> {9, 8, 7, 6, 4, 2} \<Longrightarrow> candidates level = default_candidates"
  by (simp add: candidates_def admin_name_map_def dict_get_def)

lemma query_loop_acc:
  "query_loop w qs (gl, ws) =
     (gl @ concat (map (\<lambda>q. case process_item w q of Inr gj \<Rightarrow> [gj] | Inl e \<Rightarrow> []) qs),
      ws @ concat (map (\<lambda>q. case process_item w q of Inr gj \<Rightarrow> []
              | Inl e \<Rightarrow> [''Failed to process '' @ str_opt (area_name q) @ '': '' @ str_error e]) qs))"
  by (induction qs arbitrary: gl ws) (auto split: sum.splits)

lemma combine_loop_acc:
  "\<forall>gj \<in> set gl. gj_type gj = Some ''FeatureCollection'' \<or> gj_type gj = Some ''Feature'' \<Longrightarrow>
   combine_loop gl acc =
     Inr (acc @ concat (map (\<lambda>gj. if gj_type gj = Some ''FeatureCollection''
                                   then (case gj_features gj of None \<Rightarrow> [] | Some fs \<Rightarrow> fs)
                                   else [gj]) gl))"
  by (induction gl arbitrary: acc) auto

lemma combine_loop_error:
  "(\<exists>e. combine_loop gl acc = Inl e) \<longleftrightarrow>
   (\<exists>gj \<in> set gl. gj_type gj \<noteq> Some ''FeatureCollection'' \<and> gj_type gj \<noteq> Some ''Feature'')"
  by (induction gl arbitrary: acc) auto

lemma find_shapefile_None_iff:
  "find_shapefile fs b c L = None \<longleftrightarrow> (\<forall>l. 0 \<le> l \<and> l \<le> L \<longrightarrow> fs (shp_path b c l) = None)"
proof (induction fs b c L rule: find_shapefile.induct)
  case (1 fs b c L)
  show ?case
  proof (cases "L < 0")
    case True
    then have "find_shapefile fs b c L = None" by (simp add: find_shapefile.simps)
    moreover have "\<forall>l. 0 \<le> l \<and> l \<le> L \<longrightarrow> fs (shp_path b c l) = None"
      using True by auto
    ultimately show ?thesis by simp
  next
    case nonneg: False
    show ?thesis
    proof (cases "fs (shp_path b c L)")
      case None
      with nonneg 1 have ih: "find_shapefile fs b c (L - 1) = None \<longleftrightarrow>
          (\<forall>l. 0 \<le> l \<and> l \<le> L - 1 \<longrightarrow> fs (shp_path b c l) = None)" by simp
      have step: "l \<le> L \<longleftrightarrow> l \<le> L - 1 \<or> l = L" for l by arith
      have "find_shapefile fs b c L = find_shapefile fs b c (L - 1)"
        using nonneg None by (simp add: find_shapefile.simps)
      then show ?thesis using ih None step by auto
    next
      case (Some g)
      then have "find_shapefile fs b c L = Some (L, g)"
        using nonneg by (simp add: find_shapefile.simps)
      moreover have "\<not> (\<forall>l. 0 \<le> l \<and> l \<le> L \<longrightarrow> fs (shp_path b c l) = None)"
      proof
        assume "\<forall>l. 0 \<le> l \<and> l \<le> L \<longrightarrow> fs (shp_path b c l) = None"
        moreover have "0 \<le> L \<and> L \<le> L" using nonneg by simp
        ultimately have "fs (shp_path b c L) = None" by blast
        with Some show False by simp
      qed
      ultimately show ?thesis by simp
    qed
  qed
qed

lemma find_shapefile_Some_iff:
  "find_shapefile fs b c L = Some (l, g) \<longleftrightarrow>
     0 \<le> l \<and> l \<le> L \<and> fs (shp_path b c l) = Some g
     \<and> (\<forall>k. l < k \<and> k \<le> L \<longrightarrow> fs (shp_path b c k) = None)"
proof (induction fs b c L rule: find_shapefile.induct)
  case (1 fs b c L)
  show ?case
  proof (cases "L < 0")
    case True
    then show ?thesis by (auto simp: find_shapefile.simps)
  next
    case nonneg: False
    show ?thesis
    proof (cases "fs (shp_path b c L)")
      case None
      with nonneg 1 have ih: "find_shapefile fs b c (L - 1) = Some (l, g) \<longleftrightarrow>
          0 \<le> l \<and> l \<le> L - 1 \<and> fs (shp_path b c l) = Some g
          \<and> (\<forall>k. l < k \<and> k \<le> L - 1 \<longrightarrow> fs (shp_path b c k) = None)" by simp
      have step: "k \<le> L \<longleftrightarrow> k \<le> L - 1 \<or> k = L" for k by arith
      have eq: "find_shapefile fs b c L = find_shapefile fs b c (L - 1)"
        using nonneg None by (simp add: find_shapefile.simps)
      show ?thesis
      proof
        assume "find_shapefile fs b c L = Some (l, g)"
        with eq ih have a: "0 \<le> l" "l \<le> L - 1" "fs (shp_path b c l) = Some g"
          "\<forall>k. l < k \<and> k \<le> L - 1 \<longrightarrow> fs (shp_path b c k) = None" by auto
        from a(4) None step have "\<forall>k. l < k \<and> k \<le> L \<longrightarrow> fs (shp_path b c k) = None" by auto
        with a show "0 \<le> l \<and> l \<le> L \<and> fs (shp_path b c l) = Some g
           \<and> (\<forall>k. l < k \<and> k \<le> L \<longrightarrow> fs (shp_path b c k) = None)" by auto
      next
        assume r: "0 \<le> l \<and> l \<le> L \<and> fs (shp_path b c l) = Some g
           \<and> (\<forall>k. l < k \<and> k \<le> L \<longrightarrow> fs (shp_path b c k) = None)"
        with None have "l \<noteq> L" by auto
        with r have "0 \<le> l \<and> l \<le> L - 1 \<and> fs (shp_path b c l) = Some g
          \<and> (\<forall>k. l < k \<and> k \<le> L - 1 \<longrightarrow> fs (shp_path b c k) = None)" by auto
        with ih eq show "find_shapefile fs b c L = Some (l, g)" by simp
      qed
    next
      case (Some g')
      then have eq: "find_shapefile fs b c L = Some (L, g')"
        using nonneg by (simp add: find_shapefile.simps)
      show ?thesis
      proof
        assume "find_shapefile fs b c L = Some (l, g)"
        with eq have "l = L" "g = g'" by auto
        with Some nonneg show "0 \<le> l \<and> l \<le> L \<and> fs (shp_path b c l) = Some g
           \<and> (\<forall>k. l < k \<and> k \<le> L \<longrightarrow> fs (shp_path b c k) = None)" by auto
      next
        assume r: "0 \<le> l \<and> l \<le> L \<and> fs (shp_path b c l) = Some g
           \<and> (\<forall>k. l < k \<and> k \<le> L \<longrightarrow> fs (shp_path b c k) = None)"
        have "l = L"
        proof (rule ccontr)
          assume "l \<noteq> L"
          with r have "l < L \<and> L \<le> L" by auto
          with r have "fs (shp_path b c L) = None" by blast
          with Some show False by simp
        qed
        with r Some eq show "find_shapefile fs b c L = Some (l, g)" by simp
      qed
    qed
  qed
qed

lemma filter_by_name_find:
  "filter_by_name g a cols =
     map_option (\<lambda>c. GeoDataFrame (columns g) (matching_rows g c a))
       (find (\<lambda>c. c \<in> set (columns g) \<and> matching_rows g c a \<noteq> []) cols)"
  by (induction cols) (auto simp: Let_def)

lemma filter_by_name_part:
  "filter_by_name g a cols = Some f \<Longrightarrow> columns f = columns g \<and> set (rows f) \<subseteq> set (rows g)"
  by (auto simp: filter_by_name_find matching_rows_def)

lemma select_area_not_missing: "select_area g area l \<noteq> Inl (FileNotFoundError msg)"
  by (simp add: select_area_def split: option.splits)

lemma select_area_part:
  "select_area g area l = Inr g' \<Longrightarrow> columns g' = columns g \<and> set (rows g') \<subseteq> set (rows g)"
  by (auto simp: select_area_def split: option.splits if_splits dest: filter_by_name_part)

lemma matching_rows_iff:
  "matching_rows g c (lower a) = filter (\<lambda>r. \<exists>v. cell r c = Some v \<and> lower v = lower a) (rows g)"
  unfolding matching_rows_def by (rule filter_cong) auto

lemma lower_empty_iff: "lower a = lower [] \<longleftrightarrow> a = []"
  by (simp add: lower_def)

section \<open>Group and country resolution: properties\<close>

text \<open>
  C6. Alias transparency: for every key of the alias table, \<open>resolve_group\<close> returns what a
  direct lookup of the alias's canonical name in the group dataset returns (the empty list when
  the dataset has no such group), and resolving the canonical name itself returns the same list.
\<close>

theorem resolve_group_alias_transparent:
  assumes "map_of group_aliases k = Some c"
  shows "resolve_group grps (Some k) = Inr (dict_get grps c [])
       \<and> resolve_group grps (Some c) = Inr (dict_get grps c [])"
proof -
  from assms have mem: "(k, c) \<in> set group_aliases" by (rule map_of_SomeD)
  have "lower (strip k) = k" using mem by (rule alias_key_clean)
  then have a: "resolve_group grps (Some k) = Inr (dict_get grps c [])"
    using assms by (simp add: resolve_group_def dict_get_def)
  have "map_of group_aliases (lower (strip c)) = Some c" using mem by (rule alias_canonical_key)
  then have "resolve_group grps (Some c) = Inr (dict_get grps c [])"
    by (simp add: resolve_group_def dict_get_def)
  with a show ?thesis by simp
qed

theorem resolve_group_alias_transparent_witness:
  "resolve_group [''GCC'' \<mapsto> [''Qatar'', ''Oman'']] (Some ''gcc'') = Inr [''Qatar'', ''Oman'']
   \<and> resolve_group [''GCC'' \<mapsto> [''Qatar'', ''Oman'']] (Some ''GCC'') = Inr [''Qatar'', ''Oman'']"
proof -
  have h: "map_of group_aliases ''gcc'' = Some ''GCC''" by (simp add: group_aliases_def)
  have d: "dict_get [''GCC'' \<mapsto> [''Qatar'', ''Oman'']] ''GCC'' [] = [''Qatar'', ''Oman'']"
    by (simp add: dict_get_def)
  show ?thesis
    using resolve_group_alias_transparent [OF h, of "[''GCC'' \<mapsto> [''Qatar'', ''Oman'']]"]
    unfolding d .
qed

text \<open>
  C7. When the country lookup fails on a name, \<open>country_to_iso3\<close> raises a \<open>ValueError\<close>
  whose message ends with that name, verbatim; when the lookup knows the name, the code it gives
  is returned and nothing is raised.
\<close>

theorem country_to_iso3_names_input:
  "(lookup name = None \<longrightarrow>
      country_to_iso3 lookup (Some name)
        = Inl (ValueError (''Could not resolve country name: '' @ name)))
   \<and> (\<forall>code. lookup name = Some code \<longrightarrow> country_to_iso3 lookup (Some name) = Inr code)"
  by (simp add: country_to_iso3_def str_opt_def)

theorem country_to_iso3_names_input_witness:
  "country_to_iso3 (country_lookup ex_world) (Some ''Wakanda'')
     = Inl (ValueError ''Could not resolve country name: Wakanda'')
   \<and> country_to_iso3 (country_lookup ex_world) (Some ''Brazil'') = Inr ''BRA''"
proof -
  have n: "country_lookup ex_world ''Wakanda'' = None" by (simp add: ex_world_def)
  have s: "country_lookup ex_world ''Brazil'' = Some ''BRA''" by (simp add: ex_world_def)
  from n country_to_iso3_names_input [of "country_lookup ex_world" "''Wakanda''"]
  have "country_to_iso3 (country_lookup ex_world) (Some ''Wakanda'')
          = Inl (ValueError (''Could not resolve country name: '' @ ''Wakanda''))" by blast
  moreover from s country_to_iso3_names_input [of "country_lookup ex_world" "''Brazil''"]
  have "country_to_iso3 (country_lookup ex_world) (Some ''Brazil'') = Inr ''BRA''" by blast
  ultimately show ?thesis by simp
qed

section \<open>Name field selection: properties\<close>

text \<open>
  C8. \<open>select_name_field\<close> returns a column exactly when it is the first entry of the level's
  priority list that is a column of the dataset and has a value that is not null and not made of
  whitespace only; it raises (a \<open>ValueError\<close>) exactly when no entry of the list is such a
  column. The list is NAME_4, NAME_3, name for level 9 and the generic list for a level the
  table has no entry for.
\<close>

theorem select_name_field_first_usable:
  fixes g :: gdf and level :: int
  defines "usable \<equiv> \<lambda>c. c \<in> set (columns g) \<and>
             (\<exists>r \<in> set (rows g). \<exists>v. cell r c = Some v \<and> (\<exists>ch \<in> set v. \<not> is_space ch))"
  shows "(select_name_field g level = Inr col \<longleftrightarrow>
            (\<exists>i < length (candidates level). candidates level ! i = col \<and> usable col
                \<and> (\<forall>j < i. \<not> usable (candidates level ! j))))
       \<and> ((\<exists>e. select_name_field g level = Inl e) \<longleftrightarrow>
            (\<forall>c \<in> set (candidates level). \<not> usable c))
       \<and> (\<forall>e. select_name_field g level = Inl e \<longrightarrow> (\<exists>msg. e = ValueError msg))
       \<and> candidates 9 = [''NAME_4'', ''NAME_3'', ''name'']
       \<and> (level \<notin> {9, 8, 7, 6, 4, 2} \<longrightarrow> candidates level = default_candidates)"
proof -
  have u: "usable = (\<lambda>c. c \<in> set (columns g) \<and> any_name g c)"
    unfolding usable_def any_name_iff ..
  have "select_name_field g level = Inr col \<longleftrightarrow>
          find (\<lambda>c. c \<in> set (columns g) \<and> any_name g c) (candidates level) = Some col"
    by (simp add: select_name_field_def first_usable_find split: option.splits)
  also have "\<dots> \<longleftrightarrow> (\<exists>i < length (candidates level). candidates level ! i = col \<and> usable col
                \<and> (\<forall>j < i. \<not> usable (candidates level ! j)))"
    unfolding find_Some_iff u by blast
  finally have 1: "select_name_field g level = Inr col \<longleftrightarrow>
            (\<exists>i < length (candidates level). candidates level ! i = col \<and> usable col
                \<and> (\<forall>j < i. \<not> usable (candidates level ! j)))" .
  have "(\<exists>e. select_name_field g level = Inl e) \<longleftrightarrow>
          find (\<lambda>c. c \<in> set (columns g) \<and> any_name g c) (candidates level) = None"
    by (simp add: select_name_field_def first_usable_find split: option.splits)
  also have "\<dots> \<longleftrightarrow> (\<forall>c \<in> set (candidates level). \<not> usable c)"
    unfolding find_None_iff u by blast
  finally have 2: "(\<exists>e. select_name_field g level = Inl e) \<longleftrightarrow>
            (\<forall>c \<in> set (candidates level). \<not> usable c)" .
  have 3: "\<forall>e. select_name_field g level = Inl e \<longrightarrow> (\<exists>msg. e = ValueError msg)"
    unfolding select_name_field_def by (auto split: option.splits)
  have 4: "candidates 9 = [''NAME_4'', ''NAME_3'', ''name'']"
    by (simp add: candidates_def admin_name_map_def dict_get_def)
  from 1 2 3 4 candidates_default show ?thesis by blast
qed

theorem select_name_field_first_usable_witness:
  "select_name_field ex_level1 9 = Inr ''name''"
proof -
  have c: "candidates 9 = [''NAME_4'', ''NAME_3'', ''name'']"
    by (simp add: candidates_def admin_name_map_def dict_get_def)
  have "\<exists>i < length (candidates 9). candidates 9 ! i = ''name''
          \<and> (''name'' \<in> set (columns ex_level1) \<and>
              (\<exists>r \<in> set (rows ex_level1). \<exists>v. cell r ''name'' = Some v \<and> (\<exists>ch \<in> set v. \<not> is_space ch)))
          \<and> (\<forall>j < i. \<not> (candidates 9 ! j \<in> set (columns ex_level1) \<and>
              (\<exists>r \<in> set (rows ex_level1). \<exists>v. cell r (candidates 9 ! j) = Some v
                   \<and> (\<exists>ch \<in> set v. \<not> is_space ch))))"
  proof (intro exI [of _ 2] conjI allI impI)
    show "2 < length (candidates 9)" by (simp add: c)
    show "candidates 9 ! 2 = ''name''" by (simp add: c)
    show "''name'' \<in> set (columns ex_level1)" by (simp add: ex_level1_def)
    show "\<exists>r \<in> set (rows ex_level1). \<exists>v. cell r ''name'' = Some v \<and> (\<exists>ch \<in> set v. \<not> is_space ch)"
      by (simp add: ex_level1_def cell_def is_space_def)
  next
    fix j :: nat
    assume "j < 2"
    then have "j = 0 \<or> j = 1" by arith
    then have "candidates 9 ! j \<notin> set (columns ex_level1)"
      by (auto simp: c ex_level1_def)
    then show "\<not> (candidates 9 ! j \<in> set (columns ex_level1) \<and>
              (\<exists>r \<in> set (rows ex_level1). \<exists>v. cell r (candidates 9 ! j) = Some v
                   \<and> (\<exists>ch \<in> set v. \<not> is_space ch)))" by simp
  qed
  then show ?thesis
    using select_name_field_first_usable [of ex_level1 9 "''name''"] by blast
qed

text \<open>
  C10. Level 5 has no entry in the priority table, so \<open>select_name_field\<close> scans the generic
  list for it, in which NAME_4 comes before NAME_1: a dataset where both have names gets NAME_4.
  Level 7 has an entry of its own: NAME_3, NAME_2, NAME_1, name.
\<close>

theorem level_5_generic_level_7_own:
  "candidates 5 = [''NAME_4'', ''NAME_3'', ''NAME_2'', ''NAME_1'', ''COUNTRY'', ''NAME'', ''name'',
                   ''admin'', ''label'']
   \<and> candidates 5 = default_candidates
   \<and> map_of admin_name_map 5 = None
   \<and> candidates 7 = [''NAME_3'', ''NAME_2'', ''NAME_1'', ''name'']
   \<and> select_name_field g 5 = (case first_usable g default_candidates of
         Some col \<Rightarrow> Inr col
       | None \<Rightarrow> Inl (ValueError ''No suitable name field found for admin_level=5''))
   \<and> (''NAME_4'' \<in> set (columns g) \<and> any_name g ''NAME_4'' \<longrightarrow> select_name_field g 5 = Inr ''NAME_4'')"
proof -
  have 5: "candidates 5 = default_candidates"
    by (simp add: candidates_def admin_name_map_def dict_get_def)
  have s: "str_int 5 = ''5''" by (simp add: str_int_def str_nat.simps)
  show ?thesis
    unfolding select_name_field_def 5 s
    by (simp add: default_candidates_def candidates_def admin_name_map_def dict_get_def)
qed

theorem level_5_generic_level_7_own_witness:
  "select_name_field
     (GeoDataFrame [''NAME_1'', ''NAME_4'']
        [Row 0 [(''NAME_1'', ''Dubai''), (''NAME_4'', ''Deira'')] (Geometry ''Polygon'' 1)]) 5
   = Inr ''NAME_4''"
proof -
  have "any_name (GeoDataFrame [''NAME_1'', ''NAME_4'']
        [Row 0 [(''NAME_1'', ''Dubai''), (''NAME_4'', ''Deira'')] (Geometry ''Polygon'' 1)]) ''NAME_4''"
    by (simp add: any_name_def List.map_filter_def cell_def strip_def is_space_def)
  then show ?thesis
    using level_5_generic_level_7_own [of "GeoDataFrame [''NAME_1'', ''NAME_4'']
        [Row 0 [(''NAME_1'', ''Dubai''), (''NAME_4'', ''Deira'')] (Geometry ''Polygon'' 1)]",
        THEN conjunct2, THEN conjunct2, THEN conjunct2, THEN conjunct2, THEN conjunct2]
    by simp
qed

section \<open>Aggregation and the query loop: properties\<close>

text \<open>
  C9. On a list of inputs that are each tagged FeatureCollection or Feature,
  \<open>combine_geojsons\<close> returns an envelope tagged FeatureCollection whose features are, in input
  order, all the features of each collection and each single feature itself. On the empty list
  it returns the envelope with no features. (An input with any other tag makes it raise.)
\<close>

theorem combine_geojsons_flattens:
  "((\<forall>gj \<in> set geojson_list. gj_type gj = Some ''FeatureCollection'' \<or> gj_type gj = Some ''Feature'')
      \<longrightarrow> combine_geojsons geojson_list =
            Inr (GeoJson None (Some ''FeatureCollection'')
                   (Some (concat (map (\<lambda>gj. if gj_type gj = Some ''FeatureCollection''
                                             then (case gj_features gj of None \<Rightarrow> [] | Some fs \<Rightarrow> fs)
                                             else [gj]) geojson_list)))
                   None None))
   \<and> combine_geojsons [] = Inr (GeoJson None (Some ''FeatureCollection'') (Some []) None None)
   \<and> ((\<exists>e. combine_geojsons geojson_list = Inl e) \<longleftrightarrow>
        (\<exists>gj \<in> set geojson_list. gj_type gj \<noteq> Some ''FeatureCollection'' \<and> gj_type gj \<noteq> Some ''Feature''))"
proof -
  have "(\<exists>e. combine_geojsons geojson_list = Inl e) \<longleftrightarrow> (\<exists>e. combine_loop geojson_list [] = Inl e)"
    by (simp add: combine_geojsons_def split: sum.splits)
  then show ?thesis
    using combine_loop_error [of geojson_list "[]"]
    by (simp add: combine_geojsons_def feature_collection_def combine_loop_acc)
qed

theorem combine_geojsons_flattens_witness:
  "combine_geojsons [feature_collection [ex_feature 1, ex_feature 2], ex_feature 3]
     = Inr (feature_collection [ex_feature 1, ex_feature 2, ex_feature 3])"
proof -
  have "\<forall>gj \<in> set [feature_collection [ex_feature 1, ex_feature 2], ex_feature 3].
          gj_type gj = Some ''FeatureCollection'' \<or> gj_type gj = Some ''Feature''"
    by (simp add: feature_collection_def ex_feature_def)
  then show ?thesis
    using combine_geojsons_flattens [of "[feature_collection [ex_feature 1, ex_feature 2], ex_feature 3]"]
    by (simp add: feature_collection_def ex_feature_def)
qed

text \<open>
  C5. In the query loop an item that fails is skipped with a warning and the loop goes on: the
  list handed to the aggregation holds, in input order, the geometry collection of every item
  whose chain (\<open>get_data\<close>, \<open>select_name_field\<close>, \<open>extract_geometry_with_name\<close>) succeeds,
  whatever the other items do; every failed item leaves one warning.
\<close>

theorem query_loop_keeps_successes:
  "fst (query_loop w queries ([], []))
     = concat (map (\<lambda>q. case process_item w q of Inr gj \<Rightarrow> [gj] | Inl e \<Rightarrow> []) queries)
   \<and> fst (run_query w queries) = combine_geojsons (fst (query_loop w queries ([], [])))
   \<and> length (snd (query_loop w queries ([], [])))
       = length (filter (\<lambda>q. case process_item w q of Inr gj \<Rightarrow> False | Inl e \<Rightarrow> True) queries)
   \<and> fst (query_loop w (before @ q # after) ([], []))
       = fst (query_loop w before ([], []))
         @ (case process_item w q of Inr gj \<Rightarrow> [gj] | Inl e \<Rightarrow> [])
         @ fst (query_loop w after ([], []))"
proof -
  have len: "length (concat (map (\<lambda>q. case process_item w q of Inr gj \<Rightarrow> []
              | Inl e \<Rightarrow> [''Failed to process '' @ str_opt (area_name q) @ '': '' @ str_error e]) qs))
           = length (filter (\<lambda>q. case process_item w q of Inr gj \<Rightarrow> False | Inl e \<Rightarrow> True) qs)" for qs
    by (induction qs) (auto split: sum.splits)
  show ?thesis
    by (simp add: query_loop_acc run_query_def len split: prod.splits)
qed

theorem query_loop_keeps_successes_witness:
  "fst (query_loop ex_world [ex_wakanda, ex_dubai_6, ex_no_group, ex_gcc] ([], []))
     = [GeoJson None (Some ''FeatureCollection'')
          (Some [GeoJson (Some ''0'') (Some ''Feature'') None (Some [(''name'', Some ''Deira'')])
                   (Some (Geometry ''Polygon'' 30)),
                 GeoJson (Some ''2'') (Some ''Feature'') None (Some [(''name'', Some ''Hatta'')])
                   (Some (Geometry ''MultiPolygon'' 32))])
          None None,
        GeoJson None (Some ''FeatureCollection'')
          (Some [GeoJson (Some ''1'') (Some ''Feature'') None (Some [(''name'', Some ''Qatar'')])
                   (Some (Geometry ''Polygon'' 11))])
          None None]"
proof -
  have "concat (map (\<lambda>q. case process_item ex_world q of Inr gj \<Rightarrow> [gj] | Inl e \<Rightarrow> [])
                    [ex_wakanda, ex_dubai_6, ex_no_group, ex_gcc])
     = [GeoJson None (Some ''FeatureCollection'')
          (Some [GeoJson (Some ''0'') (Some ''Feature'') None (Some [(''name'', Some ''Deira'')])
                   (Some (Geometry ''Polygon'' 30)),
                 GeoJson (Some ''2'') (Some ''Feature'') None (Some [(''name'', Some ''Hatta'')])
                   (Some (Geometry ''MultiPolygon'' 32))])
          None None,
        GeoJson None (Some ''FeatureCollection'')
          (Some [GeoJson (Some ''1'') (Some ''Feature'') None (Some [(''name'', Some ''Qatar'')])
                   (Some (Geometry ''Polygon'' 11))])
          None None]"
    by code_simp
  with query_loop_keeps_successes [of ex_world "[ex_wakanda, ex_dubai_6, ex_no_group, ex_gcc]",
                                   THEN conjunct1]
  show ?thesis by (rule trans)
qed

section \<open>Loading boundary data: properties\<close>

text \<open>
  C1. \<open>load_from_shapefile\<close> looks for the country's file at the requested level, then at
  each level below it down to 0. It raises \<open>FileNotFoundError\<close> if and only if no level from
  the requested one down to 0 has a file. Otherwise the highest such level with a file is the
  one loaded: the result is what the name filter makes of that level's dataset, the dataset
  itself when no area name is given, and in any case a part of that dataset. So a level-9
  request on a country that has only a level-6 file gets the level-6 dataset.
\<close>

theorem load_from_shapefile_fallback:
  "((\<exists>msg. load_from_shapefile fs country_iso3 level area base_path = Inl (FileNotFoundError msg))
      \<longleftrightarrow> (\<forall>l. 0 \<le> l \<and> l \<le> level \<longrightarrow> fs (shp_path base_path (upper country_iso3) l) = None))
   \<and> (\<forall>l g. 0 \<le> l \<and> l \<le> level \<and> fs (shp_path base_path (upper country_iso3) l) = Some g
           \<and> (\<forall>k. l < k \<and> k \<le> level \<longrightarrow> fs (shp_path base_path (upper country_iso3) k) = None)
         \<longrightarrow> load_from_shapefile fs country_iso3 level area base_path = select_area g area l
             \<and> (area = None \<longrightarrow> load_from_shapefile fs country_iso3 level area base_path = Inr g)
             \<and> (\<forall>g'. load_from_shapefile fs country_iso3 level area base_path = Inr g'
                   \<longrightarrow> columns g' = columns g \<and> set (rows g') \<subseteq> set (rows g)))"
proof (intro conjI allI impI)
  show "(\<exists>msg. load_from_shapefile fs country_iso3 level area base_path = Inl (FileNotFoundError msg))
      \<longleftrightarrow> (\<forall>l. 0 \<le> l \<and> l \<le> level \<longrightarrow> fs (shp_path base_path (upper country_iso3) l) = None)"
  proof (cases "find_shapefile fs base_path (upper country_iso3) level")
    case None
    then have "\<exists>msg. load_from_shapefile fs country_iso3 level area base_path
                  = Inl (FileNotFoundError msg)"
      by (simp add: load_from_shapefile_def)
    moreover from None
    have "\<forall>l. 0 \<le> l \<and> l \<le> level \<longrightarrow> fs (shp_path base_path (upper country_iso3) l) = None"
      using find_shapefile_None_iff [of fs base_path "upper country_iso3" level] by blast
    ultimately show ?thesis by blast
  next
    case (Some found)
    then have "\<forall>msg. load_from_shapefile fs country_iso3 level area base_path
                  \<noteq> Inl (FileNotFoundError msg)"
      by (cases found) (simp add: load_from_shapefile_def select_area_not_missing)
    moreover from Some
    have "\<not> (\<forall>l. 0 \<le> l \<and> l \<le> level \<longrightarrow> fs (shp_path base_path (upper country_iso3) l) = None)"
        using find_shapefile_None_iff [of fs base_path "upper country_iso3" level] by simp
    ultimately show ?thesis by blast
  qed
next
  fix l g
  assume "0 \<le> l \<and> l \<le> level \<and> fs (shp_path base_path (upper country_iso3) l) = Some g
           \<and> (\<forall>k. l < k \<and> k \<le> level \<longrightarrow> fs (shp_path base_path (upper country_iso3) k) = None)"
  then have "find_shapefile fs base_path (upper country_iso3) level = Some (l, g)"
    using find_shapefile_Some_iff [of fs base_path "upper country_iso3" level l g] by blast
  then have eq: "load_from_shapefile fs country_iso3 level area base_path = select_area g area l"
    by (simp add: load_from_shapefile_def)
  show "load_from_shapefile fs country_iso3 level area base_path = select_area g area l"
    by (rule eq)
  show "load_from_shapefile fs country_iso3 level area base_path = Inr g" if "area = None"
    using that eq by (simp add: select_area_def)
  show "columns g' = columns g" "set (rows g') \<subseteq> set (rows g)"
    if "load_from_shapefile fs country_iso3 level area base_path = Inr g'" for g'
    using that eq select_area_part [of g area l g'] by simp_all
qed

theorem load_from_shapefile_fallback_witness:
  "load_from_shapefile (files ex_world) ''are'' 9 None countries_path = Inr ex_are_6
   \<and> (\<exists>msg. load_from_shapefile (files ex_world) ''are'' 5 None countries_path
               = Inl (FileNotFoundError msg))"
proof -
  have up: "upper ''are'' = ''ARE''"
    by (simp add: upper_def upper_char_def ascii_uppercase_def ascii_lowercase_def)
  have path: "shp_path countries_path ''ARE'' l
                = ''./geodata/countries/ARE/are_'' @ str_int l @ ''.shp''" for l
    by (simp add: shp_path_def countries_path_def lower_def lower_char_def
                  ascii_uppercase_def ascii_lowercase_def)
  have digit: "str_int l = [''0123456789'' ! nat l]" if "0 \<le> l" "l < 10" for l
    using that by (simp add: str_int_def str_nat.simps)
  have six: "files ex_world (shp_path countries_path ''ARE'' 6) = Some ex_are_6"
    by (simp add: path digit ex_world_def)
  have other: "files ex_world (shp_path countries_path ''ARE'' l) = None"
    if "0 \<le> l" "l \<le> 9" "l \<noteq> 6" for l
  proof -
    from that have "l = 0 \<or> l = 1 \<or> l = 2 \<or> l = 3 \<or> l = 4 \<or> l = 5 \<or> l = 7 \<or> l = 8 \<or> l = 9"
      by arith
    then show ?thesis by (auto simp: path digit ex_world_def)
  qed
  have hyp: "0 \<le> (6::int) \<and> 6 \<le> (9::int)
        \<and> files ex_world (shp_path countries_path (upper ''are'') 6) = Some ex_are_6
        \<and> (\<forall>k. 6 < k \<and> k \<le> 9 \<longrightarrow> files ex_world (shp_path countries_path (upper ''are'') k) = None)"
    using six other by (simp add: up)
  have none: "\<forall>l. 0 \<le> l \<and> l \<le> 5 \<longrightarrow> files ex_world (shp_path countries_path (upper ''are'') l) = None"
    using other by (simp add: up)
  from hyp load_from_shapefile_fallback [of "files ex_world" "''are''" 9 None countries_path]
  have "load_from_shapefile (files ex_world) ''are'' 9 None countries_path = Inr ex_are_6"
    by blast
  moreover from none load_from_shapefile_fallback [of "files ex_world" "''are''" 5 None countries_path]
  have "\<exists>msg. load_from_shapefile (files ex_world) ''are'' 5 None countries_path
               = Inl (FileNotFoundError msg)"
    by blast
  ultimately show ?thesis by simp
qed

text \<open>
  C3. For a query that is not a group query, whose level is 4, 6, 8 or 9 and whose area name is
  absent or equals the parent country up to letter case, \<open>get_data\<close> returns, once the country
  is resolved, the whole dataset of the highest level at or below the requested one that has a
  file for that country: no row is filtered out.
\<close>

theorem get_data_all_subdivisions:
  assumes "\<not> is_group_query q"
    and "admin_level q \<in> {4, 6, 8, 9}"
    and "area_name q = None
         \<or> (\<exists>a p. area_name q = Some a \<and> parent_country q = Some p \<and> lower a = lower p)"
    and "country_to_iso3 (country_lookup w) (py_or (parent_country q) (area_name q)) = Inr iso3"
    and "0 \<le> l \<and> l \<le> admin_level q"
    and "files w (shp_path countries_path (upper iso3) l) = Some g"
    and "\<forall>k. l < k \<and> k \<le> admin_level q \<longrightarrow> files w (shp_path countries_path (upper iso3) k) = None"
  shows "get_data w q = Inr g"
proof -
  from assms(5-7) have "find_shapefile (files w) countries_path (upper iso3) (admin_level q) = Some (l, g)"
    using find_shapefile_Some_iff [of "files w" countries_path "upper iso3" "admin_level q" l g]
    by blast
  then have load: "load_from_shapefile (files w) iso3 (admin_level q) area countries_path
                     = select_area g area l" for area
    by (simp add: load_from_shapefile_def)
  from assms(2) have not2: "admin_level q \<noteq> 2" by auto
  show ?thesis
  proof (cases "all_subdivisions q")
    case True
    then show ?thesis
      using assms(1,4) not2 load by (simp add: get_data_def select_area_def)
  next
    case False
    from assms(2) have "admin_level q \<in> set general_admin_levels"
      by (simp add: general_admin_levels_def)
    with False have inner: "\<not> (case area_name q of None \<Rightarrow> True
        | Some a \<Rightarrow> (case parent_country q of None \<Rightarrow> False
                      | Some p \<Rightarrow> p \<noteq> [] \<and> lower a = lower p))"
      by (simp add: all_subdivisions_def)
    then have "area_name q \<noteq> None" by (auto split: option.splits)
    with assms(3) obtain a p where ap: "area_name q = Some a" "parent_country q = Some p"
      "lower a = lower p" by auto
    with inner have "p = []" by simp
    with ap(3) have "a = []" by (simp add: lower_empty_iff)
    then show ?thesis
      using False assms(1,4) not2 load ap(1) by (simp add: get_data_def select_area_def)
  qed
qed

lemma ex_are_files:
  assumes "0 \<le> l" and "l \<le> 9"
  shows "files ex_world (shp_path countries_path (upper ''ARE'') l)
           = (if l = 6 then Some ex_are_6 else None)"
proof -
  have all: "list_all (\<lambda>l. files ex_world (shp_path countries_path (upper ''ARE'') l)
              = (if l = 6 then Some ex_are_6 else None)) [0, 1, 2, 3, 4, 5, 6, 7, 8, 9]"
    by code_simp
  from assms have "l \<in> set [0, 1, 2, 3, 4, 5, 6, 7, 8, 9]" by (simp, arith)
  with all show ?thesis unfolding list_all_iff by blast
qed

theorem get_data_all_subdivisions_witness:
  "get_data ex_world ex_emirates = Inr ex_are_6"
proof -
  have 1: "\<not> is_group_query ex_emirates" by (simp add: ex_emirates_def)
  have 2: "admin_level ex_emirates \<in> {4, 6, 8, 9}" by (simp add: ex_emirates_def)
  have "lower ''united arab emirates'' = lower ''United Arab Emirates''" by code_simp
  then have 3: "area_name ex_emirates = None
         \<or> (\<exists>a p. area_name ex_emirates = Some a \<and> parent_country ex_emirates = Some p
                  \<and> lower a = lower p)"
    by (simp add: ex_emirates_def)
  have 4: "country_to_iso3 (country_lookup ex_world)
             (py_or (parent_country ex_emirates) (area_name ex_emirates)) = Inr ''ARE''"
    by code_simp
  have 5: "0 \<le> (6::int) \<and> 6 \<le> admin_level ex_emirates" by (simp add: ex_emirates_def)
  have 6: "files ex_world (shp_path countries_path (upper ''ARE'') 6) = Some ex_are_6"
    using ex_are_files [of 6] by simp
  have 7: "\<forall>k. 6 < k \<and> k \<le> admin_level ex_emirates
             \<longrightarrow> files ex_world (shp_path countries_path (upper ''ARE'') k) = None"
    using ex_are_files by (simp add: ex_emirates_def)
  show ?thesis
    by (rule get_data_all_subdivisions [OF 1 2 3 4 5 6 7])
qed

text \<open>
  C2, as the code has it. Take a query that is not a group query, whose level is not 2 and that
  does not meet the all-subdivisions condition, with its country resolved and a dataset loaded.
  If its area name is a non-empty string, \<open>get_data\<close> compares the area name, up to letter
  case, with the values of the columns COUNTRY, NAME_0, ..., NAME_5 in this order, and returns
  the rows that match in the first column that is in the dataset and has a match; it raises a
  \<open>ValueError\<close> when no column has one. If its area name is empty or absent, \<open>get_data\<close>
  returns the loaded dataset whole.
\<close>

theorem get_data_filters_by_area_name:
  fixes w :: world and q :: GeoQueryItem and a :: string and g :: gdf
  defines "hit \<equiv> \<lambda>c. c \<in> set (columns g)
                      \<and> (\<exists>r \<in> set (rows g). \<exists>v. cell r c = Some v \<and> lower v = lower a)"
  assumes "\<not> is_group_query q"
    and "admin_level q \<noteq> 2"
    and "\<not> all_subdivisions q"
    and "country_to_iso3 (country_lookup w) (py_or (parent_country q) (area_name q)) = Inr iso3"
    and "0 \<le> l \<and> l \<le> admin_level q"
    and "files w (shp_path countries_path (upper iso3) l) = Some g"
    and "\<forall>k. l < k \<and> k \<le> admin_level q \<longrightarrow> files w (shp_path countries_path (upper iso3) k) = None"
  shows "(area_name q = Some a \<and> a \<noteq> [] \<longrightarrow>
            (\<forall>i < length name_columns.
               hit (name_columns ! i) \<and> (\<forall>j < i. \<not> hit (name_columns ! j))
               \<longrightarrow> get_data w q =
                     Inr (GeoDataFrame (columns g)
                            (filter (\<lambda>r. \<exists>v. cell r (name_columns ! i) = Some v \<and> lower v = lower a)
                                    (rows g))))
            \<and> ((\<forall>c \<in> set name_columns. \<not> hit c) \<longrightarrow> (\<exists>msg. get_data w q = Inl (ValueError msg))))
       \<and> (area_name q = None \<or> area_name q = Some [] \<longrightarrow> get_data w q = Inr g)
       \<and> name_columns = [''COUNTRY'', ''NAME_0'', ''NAME_1'', ''NAME_2'', ''NAME_3'', ''NAME_4'', ''NAME_5'']"
proof -
  have h: "hit = (\<lambda>c. c \<in> set (columns g) \<and> matching_rows g c (lower a) \<noteq> [])"
    unfolding hit_def matching_rows_iff filter_empty_conv by auto
  from assms(6-8)
  have "find_shapefile (files w) countries_path (upper iso3) (admin_level q) = Some (l, g)"
    using find_shapefile_Some_iff [of "files w" countries_path "upper iso3" "admin_level q" l g]
    by blast
  then have "load_from_shapefile (files w) iso3 (admin_level q) area countries_path
               = select_area g area l" for area
    by (simp add: load_from_shapefile_def)
  with assms(2-5) have gd: "get_data w q = select_area g (area_name q) l"
    by (simp add: get_data_def)
  have found: "get_data w q = Inr (GeoDataFrame (columns g)
                 (filter (\<lambda>r. \<exists>v. cell r (name_columns ! i) = Some v \<and> lower v = lower a) (rows g)))"
    if "area_name q = Some a \<and> a \<noteq> []"
      and "i < length name_columns" and "hit (name_columns ! i)"
      and "\<forall>j < i. \<not> hit (name_columns ! j)" for i
  proof -
    from that(2-4) have "find hit name_columns = Some (name_columns ! i)"
      unfolding find_Some_iff by blast
    then have "filter_by_name g (lower a) name_columns
                 = Some (GeoDataFrame (columns g) (matching_rows g (name_columns ! i) (lower a)))"
      by (simp add: filter_by_name_find h)
    with that(1) gd show ?thesis
      by (simp add: select_area_def matching_rows_iff)
  qed
  have missing: "\<exists>msg. get_data w q = Inl (ValueError msg)"
    if "area_name q = Some a \<and> a \<noteq> []" and "\<forall>c \<in> set name_columns. \<not> hit c"
  proof -
    from that(2) have "find hit name_columns = None" unfolding find_None_iff by blast
    then have "filter_by_name g (lower a) name_columns = None"
      by (simp add: filter_by_name_find h)
    with that(1) gd show ?thesis by (simp add: select_area_def)
  qed
  have whole: "get_data w q = Inr g" if "area_name q = None \<or> area_name q = Some []"
    using that gd by (auto simp: select_area_def)
  from found missing whole show ?thesis by (simp add: name_columns_def)
qed

theorem get_data_filters_by_area_name_witness:
  "get_data ex_world ex_dubai =
     Inr (GeoDataFrame [''COUNTRY'', ''NAME_1'', ''NAME_2'']
       [Row 0 [(''COUNTRY'', ''United Arab Emirates''), (''NAME_1'', ''Dubai''), (''NAME_2'', ''Deira'')]
            (Geometry ''Polygon'' 30),
        Row 2 [(''COUNTRY'', ''United Arab Emirates''), (''NAME_1'', ''Dubai''), (''NAME_2'', ''Hatta'')]
            (Geometry ''MultiPolygon'' 32)])"
proof -
  have 1: "\<not> is_group_query ex_dubai" by (simp add: ex_dubai_def)
  have 2: "admin_level ex_dubai \<noteq> 2" by (simp add: ex_dubai_def)
  have 3: "\<not> all_subdivisions ex_dubai" by code_simp
  have 4: "area_name ex_dubai = Some ''Dubai''" by (simp add: ex_dubai_def)
  have 5: "''Dubai'' \<noteq> []" by simp
  have 6: "country_to_iso3 (country_lookup ex_world)
             (py_or (parent_country ex_dubai) (area_name ex_dubai)) = Inr ''ARE''"
    by code_simp
  have 7: "0 \<le> (6::int) \<and> 6 \<le> admin_level ex_dubai" by (simp add: ex_dubai_def)
  have 8: "files ex_world (shp_path countries_path (upper ''ARE'') 6) = Some ex_are_6"
    using ex_are_files [of 6] by simp
  have 9: "\<forall>k. 6 < k \<and> k \<le> admin_level ex_dubai
             \<longrightarrow> files ex_world (shp_path countries_path (upper ''ARE'') k) = None"
    using ex_are_files by (simp add: ex_dubai_def)
  note named = get_data_filters_by_area_name [OF 1 2 3 6 7 8 9, THEN conjunct1, rule_format,
                                               OF conjI [OF 4 5]]
  note first = named [THEN conjunct1, rule_format, of 2]
  have low: "lower ''Dubai'' = ''dubai''" "lower ''Abu Dhabi'' = ''abu dhabi''"
    "lower ''United Arab Emirates'' = ''united arab emirates''"
    by code_simp+
  have nc: "name_columns ! 2 = ''NAME_1''" "name_columns ! 0 = ''COUNTRY''"
    "name_columns ! Suc 0 = ''NAME_0''" "length name_columns = 7"
    by (simp_all add: name_columns_def)
  have here: "name_columns ! 2 \<in> set (columns ex_are_6)
      \<and> (\<exists>r \<in> set (rows ex_are_6). \<exists>v. cell r (name_columns ! 2) = Some v \<and> lower v = lower ''Dubai'')"
    by (simp add: nc ex_are_6_def cell_def low)
  have before: "\<not> (name_columns ! j \<in> set (columns ex_are_6)
      \<and> (\<exists>r \<in> set (rows ex_are_6). \<exists>v. cell r (name_columns ! j) = Some v \<and> lower v = lower ''Dubai''))"
    if "j < 2" for j
  proof -
    from that have "j = 0 \<or> j = 1" by arith
    then show ?thesis by (auto simp: nc ex_are_6_def cell_def low)
  qed
  have rows: "filter (\<lambda>r. \<exists>v. cell r (name_columns ! 2) = Some v \<and> lower v = lower ''Dubai'')
                (rows ex_are_6)
     = [Row 0 [(''COUNTRY'', ''United Arab Emirates''), (''NAME_1'', ''Dubai''), (''NAME_2'', ''Deira'')]
            (Geometry ''Polygon'' 30),
        Row 2 [(''COUNTRY'', ''United Arab Emirates''), (''NAME_1'', ''Dubai''), (''NAME_2'', ''Hatta'')]
            (Geometry ''MultiPolygon'' 32)]"
    by (simp add: nc ex_are_6_def cell_def low)
  have cols: "columns ex_are_6 = [''COUNTRY'', ''NAME_1'', ''NAME_2'']" by (simp add: ex_are_6_def)
  have "get_data ex_world ex_dubai =
          Inr (GeoDataFrame (columns ex_are_6)
                 (filter (\<lambda>r. \<exists>v. cell r (name_columns ! 2) = Some v \<and> lower v = lower ''Dubai'')
                         (rows ex_are_6)))"
    using first here before by (simp add: nc)
  then show ?thesis by (simp only: rows cols)
qed

text \<open>
  C2 as stated fails where the area name is the empty string: a level-5 query for France with an
  empty area name is not a group query, is not at level 2 and does not meet the all-subdivisions
  condition, no candidate column has a row that matches the empty name, and yet \<open>get_data\<close>
  returns the whole French dataset instead of raising.
\<close>

theorem get_data_empty_area_name_unfiltered:
  "\<not> is_group_query ex_unnamed \<and> admin_level ex_unnamed \<noteq> 2 \<and> \<not> all_subdivisions ex_unnamed
   \<and> area_name ex_unnamed = Some []
   \<and> filter_by_name ex_fra_1 (lower []) name_columns = None
   \<and> get_data ex_world ex_unnamed = Inr ex_fra_1"
  by code_simp

text \<open>
  C4, as the code has it. A group query whose group name is missing does not get an empty member
  list: \<open>resolve_group\<close> raises \<open>AttributeError\<close> (it calls \<open>strip\<close> on \<open>None\<close>), and so do
  \<open>get_data\<close> and the item's chain, which the query loop then reports as that item's failure.
  The empty member list is what a group name that is present but unknown to the group dataset
  gets: then the global dataset is filtered to no country and the result has no rows.
\<close>

theorem group_name_missing_raises_unknown_is_empty:
  "(is_group_query q \<and> group_name q = None \<longrightarrow>
      resolve_group (groups w) (group_name q)
        = Inl (AttributeError (quote @ ''NoneType'' @ quote @ '' object has no attribute ''
                               @ quote @ ''strip'' @ quote))
      \<and> get_data w q
        = Inl (AttributeError (quote @ ''NoneType'' @ quote @ '' object has no attribute ''
                               @ quote @ ''strip'' @ quote))
      \<and> process_item w q
        = Inl (AttributeError (quote @ ''NoneType'' @ quote @ '' object has no attribute ''
                               @ quote @ ''strip'' @ quote)))
   \<and> (\<forall>name. is_group_query q \<and> group_name q = Some name
          \<and> groups w (dict_get (map_of group_aliases) (lower (strip name)) name) = None \<longrightarrow>
        resolve_group (groups w) (group_name q) = Inr []
        \<and> get_data w q = load_from_geojson (files w) level1_path []
        \<and> (\<forall>g. get_data w q = Inr g \<longrightarrow> rows g = []))"
proof (intro conjI allI impI)
  assume a: "is_group_query q \<and> group_name q = None"
  then show r: "resolve_group (groups w) (group_name q)
        = Inl (AttributeError (quote @ ''NoneType'' @ quote @ '' object has no attribute ''
                               @ quote @ ''strip'' @ quote))"
    by (simp add: resolve_group_def)
  with a show gd: "get_data w q
        = Inl (AttributeError (quote @ ''NoneType'' @ quote @ '' object has no attribute ''
                               @ quote @ ''strip'' @ quote))"
    by (simp add: get_data_def)
  then show "process_item w q
        = Inl (AttributeError (quote @ ''NoneType'' @ quote @ '' object has no attribute ''
                               @ quote @ ''strip'' @ quote))"
    by (simp add: process_item_def)
next
  fix name
  assume a: "is_group_query q \<and> group_name q = Some name
          \<and> groups w (dict_get (map_of group_aliases) (lower (strip name)) name) = None"
  then show r: "resolve_group (groups w) (group_name q) = Inr []"
    by (simp add: resolve_group_def Let_def dict_get_def)
  with a show gd: "get_data w q = load_from_geojson (files w) level1_path []"
    by (simp add: get_data_def)
  show "rows g = []" if "get_data w q = Inr g" for g
    using that gd by (auto simp: load_from_geojson_def Let_def split: option.splits)
qed

theorem group_name_missing_raises_unknown_is_empty_witness:
  "get_data ex_world ex_no_group
     = Inl (AttributeError (quote @ ''NoneType'' @ quote @ '' object has no attribute ''
                            @ quote @ ''strip'' @ quote))
   \<and> resolve_group (groups ex_world) (group_name ex_atlantis) = Inr []
   \<and> get_data ex_world ex_atlantis = Inr (GeoDataFrame [''name''] [])"
proof -
  have 1: "is_group_query ex_no_group \<and> group_name ex_no_group = None"
    by (simp add: ex_no_group_def)
  have 2: "is_group_query ex_atlantis \<and> group_name ex_atlantis = Some ''Atlantis''
          \<and> groups ex_world (dict_get (map_of group_aliases) (lower (strip ''Atlantis'')) ''Atlantis'')
              = None"
    by code_simp
  have 3: "load_from_geojson (files ex_world) level1_path [] = Inr (GeoDataFrame [''name''] [])"
    by code_simp
  from 1 group_name_missing_raises_unknown_is_empty [of ex_no_group ex_world]
  have "get_data ex_world ex_no_group
     = Inl (AttributeError (quote @ ''NoneType'' @ quote @ '' object has no attribute ''
                            @ quote @ ''strip'' @ quote))"
    by blast
  moreover from 2 group_name_missing_raises_unknown_is_empty [of ex_atlantis ex_world]
  have "resolve_group (groups ex_world) (group_name ex_atlantis) = Inr []
        \<and> get_data ex_world ex_atlantis = load_from_geojson (files ex_world) level1_path []"
    by blast
  ultimately show ?thesis using 3 by simp
qed

text \<open>
  C4 as stated fails: for the group query with no group name, \<open>resolve_group\<close> does not yield
  the empty list and \<open>get_data\<close> does not load anything; both raise \<open>AttributeError\<close>.
\<close>

theorem missing_group_name_is_not_empty_list:
  "is_group_query ex_no_group \<and> group_name ex_no_group = None
   \<and> resolve_group (groups ex_world) (group_name ex_no_group) \<noteq> Inr []
   \<and> resolve_group (groups ex_world) (group_name ex_no_group)
       = Inl (AttributeError (quote @ ''NoneType'' @ quote @ '' object has no attribute ''
                              @ quote @ ''strip'' @ quote))
   \<and> get_data ex_world ex_no_group
       = Inl (AttributeError (quote @ ''NoneType'' @ quote @ '' object has no attribute ''
                              @ quote @ ''strip'' @ quote))"
  by code_simp

end
